theory Spec2Isabelle
  imports Complex_Main
begin

section \<open>Host environment\<close>

text \<open>
  The connector renderer of \<^verbatim>\<open>src/js/flowchart.js\<close> (class \<^verbatim>\<open>FlowchartConnector\<close>)
  reads the document through four host facilities: node lookup by identifier, the
  bounding box of a node, the device pixel ratio of the window, and the computed value of
  a style variable of the document root. JavaScript numbers are modelled by real numbers:
  rounding of IEEE doubles, NaN and the infinities are outside the model. Strings are
  lists of 8-bit characters.
\<close>

datatype error = TypeError

type_synonym node = nat

type_synonym point = "real \<times> real"

record DOMRect =
  rect_left :: real
  rect_top :: real
  rect_width :: real
  rect_height :: real

text \<open>\<^verbatim>\<open>DOMRect.bottom\<close> is the larger of \<^verbatim>\<open>y\<close> and \<^verbatim>\<open>y + height\<close>.\<close>

definition rect_bottom :: "DOMRect \<Rightarrow> real" where
  "rect_bottom r = max (rect_top r) (rect_top r + rect_height r)"

record host =
  getElementById :: "string \<Rightarrow> node option"
  getBoundingClientRect :: "node \<Rightarrow> DOMRect"
  devicePixelRatio :: "real option"
  getPropertyValue :: "string \<Rightarrow> string"

section \<open>Color resolution\<close>

fun startsWith :: "string \<Rightarrow> string \<Rightarrow> bool" where
  "startsWith s [] = True"
| "startsWith [] (p # ps) = False"
| "startsWith (c # cs) (p # ps) = (c = p \<and> startsWith cs ps)"

text \<open>
  The regular expression \<^verbatim>\<open>/var\((--[^)]+)\)/\<close> tried at the start of a string: the
  literal \<^verbatim>\<open>var(--\<close>, then the longest run of characters other than the closing
  parenthesis, which must be non-empty and be followed by a closing parenthesis. A shorter
  run is followed by a character of the run, so backtracking finds nothing more. The
  result is capture group 1.
\<close>

definition match_here :: "string \<Rightarrow> string option" where
  "match_here s =
     (if startsWith s ''var(--'' then
        (let rest = drop 6 s;
             name = takeWhile (\<lambda>c. c \<noteq> CHR '')'') rest;
             after = dropWhile (\<lambda>c. c \<noteq> CHR '')'') rest
         in if name \<noteq> [] \<and> after \<noteq> [] then Some (''--'' @ name) else None)
      else None)"

text \<open>\<^verbatim>\<open>color.match(re)\<close>: the leftmost position where the expression matches;
  \<open>None\<close> is the \<^verbatim>\<open>null\<close> of no match.\<close>

fun var_match :: "string \<Rightarrow> string option" where
  "var_match [] = None"
| "var_match (c # cs) =
     (case match_here (c # cs) of Some v \<Rightarrow> Some v | None \<Rightarrow> var_match cs)"

definition isWhiteSpace :: "char \<Rightarrow> bool" where
  "isWhiteSpace c = (c \<in> set [CHR '' '', CHR 0x09, CHR 0x0A, CHR 0x0B, CHR 0x0C, CHR 0x0D, CHR 0xA0])"

definition trim :: "string \<Rightarrow> string" where
  "trim s = rev (dropWhile isWhiteSpace (rev (dropWhile isWhiteSpace s)))"

text \<open>\<^verbatim>\<open>resolveColor(color)\<close>: indexing the \<^verbatim>\<open>null\<close> of a failed match throws.\<close>

definition resolveColor :: "host \<Rightarrow> string \<Rightarrow> error + string" where
  "resolveColor h color =
     (if startsWith color ''var('' then
        (case var_match color of
           None \<Rightarrow> Inl TypeError
         | Some varName \<Rightarrow> Inr (trim (getPropertyValue h varName)))
      else Inr color)"

section \<open>The drawing surface\<close>

text \<open>
  The canvas element and its 2D context, as far as the renderer uses them. The bitmap is
  kept as the list of paint operations applied to it since it was last reset, oldest
  first, each with its geometry in device pixels. The context keeps the style values as
  they were assigned; parsing them into colors is left to the host. The only transform
  the renderer applies is \<^verbatim>\<open>scale\<close>, so the current transform is a pair of scale factors.
  The renderer builds one subpath per path (\<^verbatim>\<open>beginPath\<close>, \<^verbatim>\<open>moveTo\<close>, \<^verbatim>\<open>lineTo\<close>,
  optionally \<^verbatim>\<open>closePath\<close>); the model keeps that one subpath.
\<close>

datatype css_length = Px real

datatype line_cap = Butt | Round | Square

datatype line_join = Miter | RoundJoin | Bevel

datatype paint_op =
    Cleared point point
  | Stroked string real "real \<times> real" "point list"
  | Filled string "point list"

record canvas_element =
  canvas_width :: nat
  canvas_height :: nat
  style_width :: "css_length option"
  style_height :: "css_length option"
  transform :: "real \<times> real"
  lineCap :: line_cap
  lineJoin :: line_join
  strokeStyle :: string
  fillStyle :: string
  ctx_lineWidth :: real
  path :: "point list"
  path_closed :: bool
  bitmap :: "paint_op list"

text \<open>
  Assigning a number to \<^verbatim>\<open>canvas.width\<close> or \<^verbatim>\<open>canvas.height\<close> converts it to the
  attribute's type, \<^verbatim>\<open>unsigned long\<close>: the fraction is dropped and the result taken
  modulo \<open>2^32\<close>; a value above \<open>2^31 - 1\<close> is replaced by the attribute's default.
\<close>

definition to_unsigned_long :: "real \<Rightarrow> nat" where
  "to_unsigned_long x = nat ((if x < 0 then - \<lfloor>- x\<rfloor> else \<lfloor>x\<rfloor>) mod 4294967296)"

definition reflect_unsigned_long :: "nat \<Rightarrow> real \<Rightarrow> nat" where
  "reflect_unsigned_long dflt x =
     (let n = to_unsigned_long x in if n > 2147483647 then dflt else n)"

text \<open>
  Setting either dimension, also to the value it already has, resets the context to its
  default state and replaces the bitmap by a blank one.
\<close>

definition reset_context :: "canvas_element \<Rightarrow> canvas_element" where
  "reset_context cv =
     cv\<lparr>transform := (1, 1), lineCap := Butt, lineJoin := Miter,
        strokeStyle := ''#000000'', fillStyle := ''#000000'', ctx_lineWidth := 1,
        path := [], path_closed := False, bitmap := []\<rparr>"

definition set_width :: "canvas_element \<Rightarrow> real \<Rightarrow> canvas_element" where
  "set_width cv x = reset_context (cv\<lparr>canvas_width := reflect_unsigned_long 300 x\<rparr>)"

definition set_height :: "canvas_element \<Rightarrow> real \<Rightarrow> canvas_element" where
  "set_height cv x = reset_context (cv\<lparr>canvas_height := reflect_unsigned_long 150 x\<rparr>)"

definition scale_ctx :: "canvas_element \<Rightarrow> real \<Rightarrow> real \<Rightarrow> canvas_element" where
  "scale_ctx cv a b = cv\<lparr>transform := (fst (transform cv) * a, snd (transform cv) * b)\<rparr>"

definition to_device :: "canvas_element \<Rightarrow> point \<Rightarrow> point" where
  "to_device cv p = (fst p * fst (transform cv), snd p * snd (transform cv))"

definition clearRect :: "canvas_element \<Rightarrow> real \<Rightarrow> real \<Rightarrow> real \<Rightarrow> real \<Rightarrow> canvas_element" where
  "clearRect cv x y w h =
     cv\<lparr>bitmap := bitmap cv @ [Cleared (to_device cv (x, y)) (to_device cv (x + w, y + h))]\<rparr>"

definition beginPath :: "canvas_element \<Rightarrow> canvas_element" where
  "beginPath cv = cv\<lparr>path := [], path_closed := False\<rparr>"

definition moveTo :: "canvas_element \<Rightarrow> real \<Rightarrow> real \<Rightarrow> canvas_element" where
  "moveTo cv x y = cv\<lparr>path := [to_device cv (x, y)], path_closed := False\<rparr>"

definition lineTo :: "canvas_element \<Rightarrow> real \<Rightarrow> real \<Rightarrow> canvas_element" where
  "lineTo cv x y = cv\<lparr>path := path cv @ [to_device cv (x, y)]\<rparr>"

definition closePath :: "canvas_element \<Rightarrow> canvas_element" where
  "closePath cv = cv\<lparr>path_closed := True\<rparr>"

text \<open>A closed subpath is stroked with the segment back to its first point.\<close>

definition outline :: "canvas_element \<Rightarrow> point list" where
  "outline cv = (if path_closed cv \<and> path cv \<noteq> [] then path cv @ [hd (path cv)] else path cv)"

definition stroke :: "canvas_element \<Rightarrow> canvas_element" where
  "stroke cv =
     cv\<lparr>bitmap := bitmap cv @ [Stroked (strokeStyle cv) (ctx_lineWidth cv) (transform cv) (outline cv)]\<rparr>"

definition fill :: "canvas_element \<Rightarrow> canvas_element" where
  "fill cv = cv\<lparr>bitmap := bitmap cv @ [Filled (fillStyle cv) (path cv)]\<rparr>"

section \<open>The renderer\<close>

record connection =
  conn_from :: string
  conn_to :: string
  conn_color :: string

text \<open>
  The fields of a \<^verbatim>\<open>FlowchartConnector\<close>. \<open>canvas\<close> stands for \<^verbatim>\<open>this.canvas\<close> together
  with \<^verbatim>\<open>this.ctx\<close>, its 2D context; \<open>None\<close> is a missing node. When the constructor
  returns early no other field is assigned: see \<open>inert\<close> below.
\<close>

record FlowchartConnector =
  canvas :: "canvas_element option"
  flowchart :: "node option"
  connectionType :: string
  lineColor :: string
  lineWidth :: real
  arrowSize :: real

text \<open>
  The object the constructor leaves when the canvas node is missing. Its fields other
  than \<open>canvas\<close> are unset in the source; every method reads \<^verbatim>\<open>this.flowchart\<close>,
  \<^verbatim>\<open>this.canvas\<close> or \<^verbatim>\<open>this.ctx\<close> and throws on it before one of the placeholders
  below could show.
\<close>

definition inert :: FlowchartConnector where
  "inert = \<lparr>canvas = None, flowchart = None, connectionType = [], lineColor = [],
            lineWidth = 0, arrowSize = 0\<rparr>"

text \<open>\<^verbatim>\<open>window.devicePixelRatio || 1\<close>: a missing or zero ratio counts as 1.\<close>

definition pixelRatio :: "host \<Rightarrow> real" where
  "pixelRatio h = (case devicePixelRatio h of None \<Rightarrow> 1 | Some r \<Rightarrow> if r = 0 then 1 else r)"

definition resizeCanvas :: "host \<Rightarrow> FlowchartConnector \<Rightarrow> error + FlowchartConnector" where
  "resizeCanvas h this =
     (case flowchart this of
        None \<Rightarrow> Inl TypeError
      | Some f \<Rightarrow>
          (case canvas this of
             None \<Rightarrow> Inl TypeError
           | Some cv \<Rightarrow>
               (let rect = getBoundingClientRect h f;
                    r = pixelRatio h;
                    cv1 = set_width cv (rect_width rect * r);
                    cv2 = set_height cv1 (rect_height rect * r);
                    cv3 = cv2\<lparr>style_width := Some (Px (rect_width rect))\<rparr>;
                    cv4 = cv3\<lparr>style_height := Some (Px (rect_height rect))\<rparr>;
                    cv5 = scale_ctx cv4 r r;
                    cv6 = cv5\<lparr>lineCap := Round\<rparr>;
                    cv7 = cv6\<lparr>lineJoin := RoundJoin\<rparr>
                in Inr (this\<lparr>canvas := Some cv7\<rparr>))))"

text \<open>The three anchor functions; \<open>Inr None\<close> is the \<^verbatim>\<open>null\<close> of a missing element.\<close>

definition getElementCenter :: "host \<Rightarrow> FlowchartConnector \<Rightarrow> string \<Rightarrow> error + point option" where
  "getElementCenter h this elementId =
     (case getElementById h elementId of
        None \<Rightarrow> Inr None
      | Some element \<Rightarrow>
          (case flowchart this of
             None \<Rightarrow> Inl TypeError
           | Some f \<Rightarrow>
               (let flowchartRect = getBoundingClientRect h f;
                    elementRect = getBoundingClientRect h element
                in Inr (Some (rect_left elementRect + rect_width elementRect / 2 - rect_left flowchartRect,
                              rect_top elementRect + rect_height elementRect / 2 - rect_top flowchartRect)))))"

definition getElementBottom :: "host \<Rightarrow> FlowchartConnector \<Rightarrow> string \<Rightarrow> error + point option" where
  "getElementBottom h this elementId =
     (case getElementById h elementId of
        None \<Rightarrow> Inr None
      | Some element \<Rightarrow>
          (case flowchart this of
             None \<Rightarrow> Inl TypeError
           | Some f \<Rightarrow>
               (let flowchartRect = getBoundingClientRect h f;
                    elementRect = getBoundingClientRect h element
                in Inr (Some (rect_left elementRect + rect_width elementRect / 2 - rect_left flowchartRect,
                              rect_bottom elementRect - rect_top flowchartRect)))))"

definition getElementTop :: "host \<Rightarrow> FlowchartConnector \<Rightarrow> string \<Rightarrow> error + point option" where
  "getElementTop h this elementId =
     (case getElementById h elementId of
        None \<Rightarrow> Inr None
      | Some element \<Rightarrow>
          (case flowchart this of
             None \<Rightarrow> Inl TypeError
           | Some f \<Rightarrow>
               (let flowchartRect = getBoundingClientRect h f;
                    elementRect = getBoundingClientRect h element
                in Inr (Some (rect_left elementRect + rect_width elementRect / 2 - rect_left flowchartRect,
                              rect_top elementRect - rect_top flowchartRect)))))"

text \<open>\<^verbatim>\<open>Math.atan2(y, x)\<close> on the reals (signed zeros are outside the model).\<close>

definition atan2 :: "real \<Rightarrow> real \<Rightarrow> real" where
  "atan2 y x =
     (if 0 < x then arctan (y / x)
      else if x < 0 then (if 0 \<le> y then arctan (y / x) + pi else arctan (y / x) - pi)
      else if 0 < y then pi / 2
      else if y < 0 then - (pi / 2)
      else 0)"

text \<open>The two trailing vertices of the arrow head, as \<^verbatim>\<open>drawArrow\<close> computes them.\<close>

definition head_left :: "real \<Rightarrow> real \<Rightarrow> real \<Rightarrow> real \<Rightarrow> real \<Rightarrow> point" where
  "head_left asize fromX fromY toX toY =
     (let angle = atan2 (toY - fromY) (toX - fromX)
      in (toX - asize * cos (angle - pi / 6), toY - asize * sin (angle - pi / 6)))"

definition head_right :: "real \<Rightarrow> real \<Rightarrow> real \<Rightarrow> real \<Rightarrow> real \<Rightarrow> point" where
  "head_right asize fromX fromY toX toY =
     (let angle = atan2 (toY - fromY) (toX - fromX)
      in (toX - asize * cos (angle + pi / 6), toY - asize * sin (angle + pi / 6)))"

text \<open>The context calls of \<^verbatim>\<open>drawArrow\<close>, in the order of the source.\<close>

definition paintArrow ::
  "canvas_element \<Rightarrow> string \<Rightarrow> real \<Rightarrow> real \<Rightarrow> real \<Rightarrow> real \<Rightarrow> real \<Rightarrow> real \<Rightarrow> canvas_element" where
  "paintArrow cv resolvedColor width asize fromX fromY toX toY =
     (let c1 = cv\<lparr>strokeStyle := resolvedColor\<rparr>;
          c2 = c1\<lparr>fillStyle := resolvedColor\<rparr>;
          c3 = c2\<lparr>ctx_lineWidth := width\<rparr>;
          c4 = beginPath c3;
          c5 = moveTo c4 fromX fromY;
          c6 = lineTo c5 toX toY;
          c7 = stroke c6;
          c8 = beginPath c7;
          c9 = moveTo c8 toX toY;
          c10 = lineTo c9 (fst (head_left asize fromX fromY toX toY)) (snd (head_left asize fromX fromY toX toY));
          c11 = lineTo c10 (fst (head_right asize fromX fromY toX toY)) (snd (head_right asize fromX fromY toX toY));
          c12 = closePath c11
      in fill c12)"

text \<open>\<^verbatim>\<open>drawArrow\<close>; a color of \<open>None\<close> is an omitted argument, replaced by
  \<^verbatim>\<open>this.lineColor\<close>.\<close>

definition drawArrow ::
  "host \<Rightarrow> FlowchartConnector \<Rightarrow> real \<Rightarrow> real \<Rightarrow> real \<Rightarrow> real \<Rightarrow> string option
   \<Rightarrow> error + FlowchartConnector" where
  "drawArrow h this fromX fromY toX toY color =
     (case resolveColor h (case color of None \<Rightarrow> lineColor this | Some c \<Rightarrow> c) of
        Inl e \<Rightarrow> Inl e
      | Inr resolvedColor \<Rightarrow>
          (case canvas this of
             None \<Rightarrow> Inl TypeError
           | Some cv \<Rightarrow>
               Inr (this\<lparr>canvas :=
                      Some (paintArrow cv resolvedColor (lineWidth this) (arrowSize this)
                              fromX fromY toX toY)\<rparr>)))"

definition drawConnection ::
  "host \<Rightarrow> FlowchartConnector \<Rightarrow> string \<Rightarrow> string \<Rightarrow> string option \<Rightarrow> error + FlowchartConnector" where
  "drawConnection h this fromElementId toElementId color =
     (case getElementBottom h this fromElementId of
        Inl e \<Rightarrow> Inl e
      | Inr fromPos \<Rightarrow>
          (case getElementTop h this toElementId of
             Inl e \<Rightarrow> Inl e
           | Inr toPos \<Rightarrow>
               (case (fromPos, toPos) of
                  (Some (fx, fy), Some (tx, ty)) \<Rightarrow> drawArrow h this fx fy tx ty color
                | _ \<Rightarrow> Inr this)))"

text \<open>The two connection tables written out in \<^verbatim>\<open>drawConnections\<close>.\<close>

definition hachzarah_connections :: "connection list" where
  "hachzarah_connections =
    [\<lparr>conn_from = ''question1c'', conn_to = ''q1c-yes'', conn_color = ''var(--category-gradient-start)''\<rparr>,
     \<lparr>conn_from = ''question1c'', conn_to = ''q1c-no'', conn_color = ''var(--category-error-start)''\<rparr>,
     \<lparr>conn_from = ''question2c'', conn_to = ''q2c-yes'', conn_color = ''var(--category-gradient-start)''\<rparr>,
     \<lparr>conn_from = ''question2c'', conn_to = ''q2c-no'', conn_color = ''var(--link-color)''\<rparr>,
     \<lparr>conn_from = ''question3c'', conn_to = ''q3c-yes'', conn_color = ''var(--category-gradient-start)''\<rparr>,
     \<lparr>conn_from = ''question3c'', conn_to = ''q3c-no'', conn_color = ''var(--category-error-start)''\<rparr>,
     \<lparr>conn_from = ''question4c'', conn_to = ''q4c-yes'', conn_color = ''var(--category-gradient-start)''\<rparr>,
     \<lparr>conn_from = ''question4c'', conn_to = ''q4c-no'', conn_color = ''var(--category-error-start)''\<rparr>,
     \<lparr>conn_from = ''question5c'', conn_to = ''q5c-yes'', conn_color = ''var(--category-gradient-start)''\<rparr>,
     \<lparr>conn_from = ''question5c'', conn_to = ''q5c-no'', conn_color = ''var(--category-error-start)''\<rparr>,
     \<lparr>conn_from = ''question6c'', conn_to = ''q6c-yes'', conn_color = ''var(--category-gradient-start)''\<rparr>,
     \<lparr>conn_from = ''question6c'', conn_to = ''q6c-maybe'', conn_color = ''#ed8936''\<rparr>]"

definition default_connections :: "connection list" where
  "default_connections =
    [\<lparr>conn_from = ''question1'', conn_to = ''q1-yes'', conn_color = ''var(--category-gradient-start)''\<rparr>,
     \<lparr>conn_from = ''question1'', conn_to = ''q1-no'', conn_color = ''var(--category-error-start)''\<rparr>,
     \<lparr>conn_from = ''question2'', conn_to = ''q2-yes'', conn_color = ''var(--category-gradient-start)''\<rparr>,
     \<lparr>conn_from = ''question2'', conn_to = ''q2-no'', conn_color = ''var(--category-error-start)''\<rparr>,
     \<lparr>conn_from = ''question3'', conn_to = ''q3-yes'', conn_color = ''var(--category-gradient-start)''\<rparr>,
     \<lparr>conn_from = ''question3'', conn_to = ''q3-no'', conn_color = ''var(--category-error-start)''\<rparr>]"

text \<open>\<^verbatim>\<open>connections.forEach(conn => this.drawConnection(conn.from, conn.to, conn.color))\<close>;
  an exception ends the loop.\<close>

fun forEach_draw :: "host \<Rightarrow> connection list \<Rightarrow> FlowchartConnector \<Rightarrow> error + FlowchartConnector" where
  "forEach_draw h [] this = Inr this"
| "forEach_draw h (c # cs) this =
     (case drawConnection h this (conn_from c) (conn_to c) (Some (conn_color c)) of
        Inl e \<Rightarrow> Inl e
      | Inr this' \<Rightarrow> forEach_draw h cs this')"

definition active_connections :: "string \<Rightarrow> connection list" where
  "active_connections t = (if t = ''hachzarah'' then hachzarah_connections else default_connections)"

definition drawConnections :: "host \<Rightarrow> FlowchartConnector \<Rightarrow> error + FlowchartConnector" where
  "drawConnections h this =
     (case canvas this of
        None \<Rightarrow> Inl TypeError
      | Some cv \<Rightarrow>
          forEach_draw h (active_connections (connectionType this))
            (this\<lparr>canvas := Some (clearRect cv 0 0 (real (canvas_width cv)) (real (canvas_height cv)))\<rparr>))"

section \<open>Construction, the resize listener and its timer\<close>

text \<open>
  The window as the renderer sees it: whether its resize listener is registered, the
  variable \<^verbatim>\<open>resizeTimeout\<close> of the listener's closure (\<open>None\<close> is \<^verbatim>\<open>undefined\<close>),
  the pending timeouts set by the listener as pairs of timer id and due time, the next
  timer id, and a clock in milliseconds. \<open>redraws\<close> logs the clock at each completed run
  of the timeout's callback.
\<close>

record page =
  connector :: FlowchartConnector
  listening :: bool
  resizeTimeout :: "nat option"
  timers :: "(nat \<times> nat) list"
  next_timer :: nat
  clock :: nat
  redraws :: "nat list"

definition init :: "host \<Rightarrow> page \<Rightarrow> error + page" where
  "init h pg =
     (case resizeCanvas h (connector pg) of
        Inl e \<Rightarrow> Inl e
      | Inr c1 \<Rightarrow>
          (case drawConnections h c1 of
             Inl e \<Rightarrow> Inl e
           | Inr c2 \<Rightarrow> Inr (pg\<lparr>connector := c2, listening := True, resizeTimeout := None\<rparr>)))"

text \<open>
  \<^verbatim>\<open>new FlowchartConnector(canvasId, flowchartId, connectionType)\<close> on a window \<open>pg\<close>;
  \<open>surface\<close> gives the state of a canvas node, and a connection type of \<open>None\<close> is an
  omitted argument. The 2D context of an existing canvas is taken to exist.
\<close>

definition constructor ::
  "host \<Rightarrow> (node \<Rightarrow> canvas_element) \<Rightarrow> page \<Rightarrow> string \<Rightarrow> string \<Rightarrow> string option \<Rightarrow> error + page" where
  "constructor h surface pg canvasId flowchartId ctype =
     (case getElementById h canvasId of
        None \<Rightarrow> Inr (pg\<lparr>connector := inert\<rparr>)
      | Some n \<Rightarrow>
          init h (pg\<lparr>connector :=
            \<lparr>canvas = Some (surface n),
             flowchart = getElementById h flowchartId,
             connectionType = (case ctype of None \<Rightarrow> ''default'' | Some t \<Rightarrow> t),
             lineColor = trim (getPropertyValue h ''--primary-color''),
             lineWidth = 3,
             arrowSize = 8\<rparr>\<rparr>))"

definition clearTimeout :: "page \<Rightarrow> nat option \<Rightarrow> page" where
  "clearTimeout pg t =
     (case t of None \<Rightarrow> pg | Some i \<Rightarrow> pg\<lparr>timers := filter (\<lambda>(j, d). j \<noteq> i) (timers pg)\<rparr>)"

definition setTimeout :: "page \<Rightarrow> nat \<Rightarrow> nat \<times> page" where
  "setTimeout pg delay =
     (next_timer pg,
      pg\<lparr>timers := timers pg @ [(next_timer pg, clock pg + delay)], next_timer := Suc (next_timer pg)\<rparr>)"

text \<open>The resize listener; without a registered listener a resize event does nothing.\<close>

definition on_resize :: "page \<Rightarrow> page" where
  "on_resize pg =
     (if listening pg then
        (let pg1 = clearTimeout pg (resizeTimeout pg);
             (i, pg2) = setTimeout pg1 100
         in pg2\<lparr>resizeTimeout := Some i\<rparr>)
      else pg)"

text \<open>
  The timeout's callback. An exception in it is reported by the host and goes no
  further; \<open>resizeCanvas\<close> throws before it changes anything, and once it has returned
  \<open>drawConnections\<close> does not throw.
\<close>

definition callback :: "host \<Rightarrow> page \<Rightarrow> page" where
  "callback h pg =
     (case resizeCanvas h (connector pg) of
        Inl e \<Rightarrow> pg
      | Inr c1 \<Rightarrow>
          (case drawConnections h c1 of
             Inl e \<Rightarrow> pg\<lparr>connector := c1\<rparr>
           | Inr c2 \<Rightarrow> pg\<lparr>connector := c2, redraws := redraws pg @ [clock pg]\<rparr>))"

text \<open>
  Time passes to \<open>t\<close>: the timeouts due by then fire in the order of their due times,
  each at its due time, with the document as it is at that time (\<open>env\<close>).
\<close>

definition fire :: "(nat \<Rightarrow> host) \<Rightarrow> page \<Rightarrow> nat \<times> nat \<Rightarrow> page" where
  "fire env pg t =
     (let pg1 = pg\<lparr>clock := max (clock pg) (snd t),
                    timers := filter (\<lambda>(j, d). j \<noteq> fst t) (timers pg)\<rparr>
      in callback (env (clock pg1)) pg1)"

definition advance :: "(nat \<Rightarrow> host) \<Rightarrow> nat \<Rightarrow> page \<Rightarrow> page" where
  "advance env t pg =
     (let pg1 = foldl (fire env) pg (sort_key snd (filter (\<lambda>(j, d). d \<le> t) (timers pg)))
      in pg1\<lparr>clock := max (clock pg1) t\<rparr>)"


section \<open>What the bitmap shows\<close>

text \<open>
  Replaying the paint operations decides whether a device point carries ink. A stroke
  covers the points that its pen, a disc of diameter \<^verbatim>\<open>lineWidth\<close> in user space
  (round caps and joins, as \<open>resizeCanvas\<close> sets them), sweeps along the path. The
  renderer fills triangles only; a filled path is covered as the fan of triangles from
  its first vertex. Anti-aliasing is outside the model.
\<close>

definition in_box :: "point \<Rightarrow> point \<Rightarrow> point \<Rightarrow> bool" where
  "in_box a b p =
     (min (fst a) (fst b) \<le> fst p \<and> fst p \<le> max (fst a) (fst b) \<and>
      min (snd a) (snd b) \<le> snd p \<and> snd p \<le> max (snd a) (snd b))"

definition near_segment :: "real \<Rightarrow> point \<Rightarrow> point \<Rightarrow> point \<Rightarrow> bool" where
  "near_segment d a b u =
     (let abx = fst b - fst a;
          aby = snd b - snd a;
          l2 = abx * abx + aby * aby;
          t = (if l2 = 0 then 0
               else max 0 (min 1 (((fst u - fst a) * abx + (snd u - snd a) * aby) / l2)));
          cx = fst a + t * abx;
          cy = snd a + t * aby
      in (fst u - cx) * (fst u - cx) + (snd u - cy) * (snd u - cy) \<le> d * d)"

fun near_path :: "real \<Rightarrow> point list \<Rightarrow> point \<Rightarrow> bool" where
  "near_path d (a # b # ps) u = (near_segment d a b u \<or> near_path d (b # ps) u)"
| "near_path d ps u = False"

definition cross :: "point \<Rightarrow> point \<Rightarrow> point \<Rightarrow> real" where
  "cross a b p = (fst b - fst a) * (snd p - snd a) - (snd b - snd a) * (fst p - fst a)"

definition in_triangle :: "point \<Rightarrow> point \<Rightarrow> point \<Rightarrow> point \<Rightarrow> bool" where
  "in_triangle a b c p =
     (\<not> ((cross a b p < 0 \<or> cross b c p < 0 \<or> cross c a p < 0) \<and>
         (0 < cross a b p \<or> 0 < cross b c p \<or> 0 < cross c a p)))"

fun in_fan :: "point list \<Rightarrow> point \<Rightarrow> bool" where
  "in_fan (a # b # c # ps) p = (in_triangle a b c p \<or> in_fan (a # c # ps) p)"
| "in_fan ps p = False"

definition to_user :: "real \<times> real \<Rightarrow> point \<Rightarrow> point" where
  "to_user ctm p = (fst p / fst ctm, snd p / snd ctm)"

fun covers :: "paint_op \<Rightarrow> point \<Rightarrow> bool" where
  "covers (Cleared a b) p = in_box a b p"
| "covers (Stroked c w ctm ps) p =
     (fst ctm \<noteq> 0 \<and> snd ctm \<noteq> 0 \<and> near_path (w / 2) (map (to_user ctm) ps) (to_user ctm p))"
| "covers (Filled c ps) p = in_fan ps p"

fun inked_from :: "bool \<Rightarrow> paint_op list \<Rightarrow> point \<Rightarrow> bool" where
  "inked_from b [] p = b"
| "inked_from b (Cleared a c # ops) p = inked_from (b \<and> \<not> in_box a c p) ops p"
| "inked_from b (Stroked c w ctm ps # ops) p = inked_from (b \<or> covers (Stroked c w ctm ps) p) ops p"
| "inked_from b (Filled c ps # ops) p = inked_from (b \<or> covers (Filled c ps) p) ops p"

definition inked :: "paint_op list \<Rightarrow> point \<Rightarrow> bool" where
  "inked ops p = inked_from False ops p"

text \<open>The device points of the backing buffer of a canvas.\<close>

definition in_buffer :: "canvas_element \<Rightarrow> point \<Rightarrow> bool" where
  "in_buffer cv p = in_box (0, 0) (real (canvas_width cv), real (canvas_height cv)) p"

section \<open>An example document\<close>

text \<open>
  A slide with the container \<^verbatim>\<open>flowchart\<close>, the canvas \<^verbatim>\<open>flowchart-canvas\<close> and the first
  question of the default topology with its yes-answer, at device pixel ratio 1.
\<close>

definition slide_ids :: "string \<Rightarrow> node option" where
  "slide_ids s =
     (if s = ''flowchart'' then Some 0
      else if s = ''flowchart-canvas'' then Some 1
      else if s = ''question1'' then Some 2
      else if s = ''q1-yes'' then Some 3
      else None)"

definition slide_rects :: "node \<Rightarrow> DOMRect" where
  "slide_rects n =
     (if n = 0 then \<lparr>rect_left = 80, rect_top = 30, rect_width = 200, rect_height = 100\<rparr>
      else if n = 2 then \<lparr>rect_left = 100, rect_top = 50, rect_width = 40, rect_height = 20\<rparr>
      else if n = 3 then \<lparr>rect_left = 220, rect_top = 90, rect_width = 40, rect_height = 20\<rparr>
      else if n = 4 then \<lparr>rect_left = 90, rect_top = 90, rect_width = 40, rect_height = 20\<rparr>
      else \<lparr>rect_left = 0, rect_top = 0, rect_width = 0, rect_height = 0\<rparr>)"

definition slide_style :: "string \<Rightarrow> string" where
  "slide_style v =
     (if v = ''--primary-color'' then '' #667eea''
      else if v = ''--category-gradient-start'' then '' #48bb78''
      else if v = ''--category-error-start'' then '' #f56565''
      else if v = ''--link-color'' then '' #4299e1''
      else [])"

definition slide :: host where
  "slide = \<lparr>getElementById = slide_ids, getBoundingClientRect = slide_rects,
            devicePixelRatio = Some 1, getPropertyValue = slide_style\<rparr>"

text \<open>A canvas element as the document creates it, and the renderer as the constructor
  has it before \<^verbatim>\<open>init\<close>.\<close>

definition fresh_canvas :: canvas_element where
  "fresh_canvas =
     \<lparr>canvas_width = 300, canvas_height = 150, style_width = None, style_height = None,
      transform = (1, 1), lineCap = Butt, lineJoin = Miter, strokeStyle = ''#000000'',
      fillStyle = ''#000000'', ctx_lineWidth = 1, path = [], path_closed = False, bitmap = []\<rparr>"

definition slide_connector :: FlowchartConnector where
  "slide_connector =
     \<lparr>canvas = Some fresh_canvas, flowchart = Some 0, connectionType = ''default'',
      lineColor = ''#667eea'', lineWidth = 3, arrowSize = 8\<rparr>"

text \<open>The same slide at device pixel ratio 1.5 with a container of 101 by 51 CSS pixels.\<close>

definition hidpi_rects :: "node \<Rightarrow> DOMRect" where
  "hidpi_rects n =
     (if n = 0 then \<lparr>rect_left = 80, rect_top = 30, rect_width = 101, rect_height = 51\<rparr>
      else slide_rects n)"

definition hidpi_slide :: host where
  "hidpi_slide = slide\<lparr>getBoundingClientRect := hidpi_rects, devicePixelRatio := Some (3 / 2)\<rparr>"

text \<open>The canvas of the renderer an operation returns.\<close>

definition surface_of :: "error + FlowchartConnector \<Rightarrow> canvas_element option" where
  "surface_of r = (case r of Inl e \<Rightarrow> None | Inr this \<Rightarrow> canvas this)"

section \<open>What one connection paints\<close>

text \<open>
  The paint operations of one connection: what \<open>drawConnection\<close> leaves on the bitmap
  when it runs on the renderer with its bitmap emptied. A connection resolves in a
  document when both its identifiers do. Two documents look the same to a connection
  when they agree on its two identifiers, on the bounding boxes and on the style values.
\<close>

definition blank :: "FlowchartConnector \<Rightarrow> FlowchartConnector" where
  "blank this = this\<lparr>canvas := map_option (\<lambda>cv. cv\<lparr>bitmap := []\<rparr>) (canvas this)\<rparr>"

definition connection_ops :: "host \<Rightarrow> FlowchartConnector \<Rightarrow> connection \<Rightarrow> paint_op list" where
  "connection_ops h this c =
     (case surface_of (drawConnection h (blank this) (conn_from c) (conn_to c) (Some (conn_color c))) of
        None \<Rightarrow> []
      | Some cv \<Rightarrow> bitmap cv)"

definition resolvable :: "host \<Rightarrow> connection \<Rightarrow> bool" where
  "resolvable h c =
     (getElementById h (conn_from c) \<noteq> None \<and> getElementById h (conn_to c) \<noteq> None)"


section \<open>More example documents\<close>

text \<open>The slide with every element of the default topology present.\<close>

definition full_ids :: "string \<Rightarrow> node option" where
  "full_ids s =
     (if s = ''q1-no'' then Some 4
      else if s = ''question2'' then Some 5
      else if s = ''q2-yes'' then Some 6
      else if s = ''q2-no'' then Some 7
      else if s = ''question3'' then Some 8
      else if s = ''q3-yes'' then Some 9
      else if s = ''q3-no'' then Some 10
      else slide_ids s)"

definition full_slide :: host where
  "full_slide = slide\<lparr>getElementById := full_ids\<rparr>"

definition first_connection :: connection where
  "first_connection =
     \<lparr>conn_from = ''question1'', conn_to = ''q1-yes'', conn_color = ''var(--category-gradient-start)''\<rparr>"

text \<open>The number of lines stroked on a bitmap: one per arrow drawn.\<close>

fun is_stroke :: "paint_op \<Rightarrow> bool" where
  "is_stroke (Stroked c w ctm ps) = True"
| "is_stroke (Cleared a b) = False"
| "is_stroke (Filled c ps) = False"

definition strokes :: "paint_op list \<Rightarrow> nat" where
  "strokes ops = length (filter is_stroke ops)"

text \<open>
  The slide at device pixel ratio 0.5 (a zoomed-out page), and the same page once the
  question and answer elements have been taken out of the document. The scenario: the
  renderer sizes its canvas and draws on the first, then redraws on the second.
\<close>

definition bare_ids :: "string \<Rightarrow> node option" where
  "bare_ids s =
     (if s = ''flowchart'' then Some 0
      else if s = ''flowchart-canvas'' then Some 1
      else None)"

definition half_slide :: host where
  "half_slide = slide\<lparr>devicePixelRatio := Some (1 / 2)\<rparr>"

definition emptied_slide :: host where
  "emptied_slide = half_slide\<lparr>getElementById := bare_ids\<rparr>"

definition redraw_after_removal :: "error + FlowchartConnector" where
  "redraw_after_removal =
     (case resizeCanvas half_slide slide_connector of
        Inl e \<Rightarrow> Inl e
      | Inr a \<Rightarrow>
          (case drawConnections half_slide a of
             Inl e \<Rightarrow> Inl e
           | Inr b \<Rightarrow> drawConnections emptied_slide b))"

text \<open>
  The slide without its container element, a window in which nothing has been
  constructed yet, and the window once the renderer of the slide is constructed.
\<close>

definition canvas_only_ids :: "string \<Rightarrow> node option" where
  "canvas_only_ids s = (if s = ''flowchart-canvas'' then Some 1 else None)"

definition no_container_slide :: host where
  "no_container_slide = slide\<lparr>getElementById := canvas_only_ids\<rparr>"

definition fresh_window :: page where
  "fresh_window =
     \<lparr>connector = inert, listening = False, resizeTimeout = None, timers = [],
      next_timer = 0, clock = 0, redraws = []\<rparr>"



section \<open>Color tokens that do not resolve\<close>

text \<open>
  C10: a color token that starts with \<^verbatim>\<open>var(\<close> and in which the pattern
  \<^verbatim>\<open>var(--name)\<close> matches nowhere makes \<open>resolveColor\<close> throw a TypeError, and so does
  \<open>drawArrow\<close> called with that color, whatever the renderer and the coordinates.
\<close>

theorem resolveColor_unmatched_var_throws:
  "startsWith color ''var('' \<Longrightarrow> var_match color = None \<Longrightarrow>
     resolveColor h color = Inl TypeError \<and>
     drawArrow h this fromX fromY toX toY (Some color) = Inl TypeError"
  by (simp add: resolveColor_def drawArrow_def)

theorem resolveColor_unmatched_var_throws_witness:
  "startsWith ''var(x)'' ''var('' \<and> var_match ''var(x)'' = None \<and>
   resolveColor slide ''var(x)'' = Inl TypeError \<and>
   drawArrow slide inert 0 0 100 0 (Some ''var(x)'') = Inl TypeError"
proof -
  have a: "startsWith ''var(x)'' ''var(''" by simp
  have b: "var_match ''var(x)'' = None" by (simp add: match_here_def)
  show ?thesis
    using a b resolveColor_unmatched_var_throws [OF a b, of slide inert 0 0 100 0] by simp
qed

section \<open>Anchors\<close>

text \<open>
  C3: for an element that exists, with the container bound, the three anchor functions
  return \<open>x = elementLeft + elementWidth / 2 - containerLeft\<close> and
  \<open>y = elementTop + elementHeight / 2 - containerTop\<close> (center),
  \<open>y = elementBottom - containerTop\<close> (bottom-center), \<open>y = elementTop - containerTop\<close>
  (top-center); for an identifier that does not resolve each returns null. The witness
  is the element \<open>{left:100, top:50, width:40, height:20}\<close> in the container
  \<open>{left:80, top:30}\<close>: bottom-center \<open>(40, 40)\<close>, top-center \<open>(40, 20)\<close>.
\<close>

theorem anchor_positions:
  "(getElementById h elementId = Some element \<and> flowchart this = Some f \<longrightarrow>
      getElementCenter h this elementId =
        Inr (Some (rect_left (getBoundingClientRect h element)
                     + rect_width (getBoundingClientRect h element) / 2
                     - rect_left (getBoundingClientRect h f),
                   rect_top (getBoundingClientRect h element)
                     + rect_height (getBoundingClientRect h element) / 2
                     - rect_top (getBoundingClientRect h f))) \<and>
      getElementBottom h this elementId =
        Inr (Some (rect_left (getBoundingClientRect h element)
                     + rect_width (getBoundingClientRect h element) / 2
                     - rect_left (getBoundingClientRect h f),
                   rect_bottom (getBoundingClientRect h element)
                     - rect_top (getBoundingClientRect h f))) \<and>
      getElementTop h this elementId =
        Inr (Some (rect_left (getBoundingClientRect h element)
                     + rect_width (getBoundingClientRect h element) / 2
                     - rect_left (getBoundingClientRect h f),
                   rect_top (getBoundingClientRect h element)
                     - rect_top (getBoundingClientRect h f)))) \<and>
   (getElementById h elementId = None \<longrightarrow>
      getElementCenter h this elementId = Inr None \<and>
      getElementBottom h this elementId = Inr None \<and>
      getElementTop h this elementId = Inr None)"
  by (simp add: getElementCenter_def getElementBottom_def getElementTop_def Let_def)

theorem anchor_positions_witness:
  "getElementById slide ''question1'' = Some 2 \<and>
   flowchart (inert\<lparr>flowchart := Some 0\<rparr>) = Some 0 \<and>
   getBoundingClientRect slide 2 = \<lparr>rect_left = 100, rect_top = 50, rect_width = 40, rect_height = 20\<rparr> \<and>
   rect_left (getBoundingClientRect slide 0) = 80 \<and>
   rect_top (getBoundingClientRect slide 0) = 30 \<and>
   getElementCenter slide (inert\<lparr>flowchart := Some 0\<rparr>) ''question1'' = Inr (Some (40, 30)) \<and>
   getElementBottom slide (inert\<lparr>flowchart := Some 0\<rparr>) ''question1'' = Inr (Some (40, 40)) \<and>
   getElementTop slide (inert\<lparr>flowchart := Some 0\<rparr>) ''question1'' = Inr (Some (40, 20)) \<and>
   getElementById slide ''question9'' = None \<and>
   getElementCenter slide (inert\<lparr>flowchart := Some 0\<rparr>) ''question9'' = Inr None \<and>
   getElementBottom slide (inert\<lparr>flowchart := Some 0\<rparr>) ''question9'' = Inr None \<and>
   getElementTop slide (inert\<lparr>flowchart := Some 0\<rparr>) ''question9'' = Inr None"
proof -
  have a: "getElementById slide ''question1'' = Some 2"
    by (simp add: slide_def slide_ids_def)
  have b: "getElementById slide ''question9'' = None"
    by (simp add: slide_def slide_ids_def)
  have r: "getBoundingClientRect slide 2 = \<lparr>rect_left = 100, rect_top = 50, rect_width = 40, rect_height = 20\<rparr>"
     "getBoundingClientRect slide 0 = \<lparr>rect_left = 80, rect_top = 30, rect_width = 200, rect_height = 100\<rparr>"
    by (simp_all add: slide_def slide_rects_def)
  show ?thesis
    using anchor_positions [of slide "''question1''" 2 "inert\<lparr>flowchart := Some 0\<rparr>" 0]
      anchor_positions [of slide "''question9''" 2 "inert\<lparr>flowchart := Some 0\<rparr>" 0]
    by (simp add: a b r inert_def rect_bottom_def)
qed

section \<open>Surface sizing\<close>

lemma reflect_in_range:
  assumes "0 \<le> x" "x < 2147483648"
  shows "reflect_unsigned_long d x = nat \<lfloor>x\<rfloor>"
proof -
  have a: "0 \<le> \<lfloor>x\<rfloor>" using assms(1) by simp
  have b: "\<lfloor>x\<rfloor> < 2147483648" using assms(2) by (simp add: floor_less_iff)
  have c: "\<lfloor>x\<rfloor> mod 4294967296 = \<lfloor>x\<rfloor>" using a b by simp
  have d: "\<not> x < 0" using assms(1) by simp
  have e: "\<not> 2147483647 < nat \<lfloor>x\<rfloor>" using a b by linarith
  show ?thesis
    using e by (simp add: reflect_unsigned_long_def to_unsigned_long_def c d Let_def)
qed

lemma resizeCanvas_bound:
  assumes "flowchart this = Some f" "canvas this = Some cv"
  shows "resizeCanvas h this =
     Inr (this\<lparr>canvas := Some
       (cv\<lparr>canvas_width := reflect_unsigned_long 300 (rect_width (getBoundingClientRect h f) * pixelRatio h),
           canvas_height := reflect_unsigned_long 150 (rect_height (getBoundingClientRect h f) * pixelRatio h),
           style_width := Some (Px (rect_width (getBoundingClientRect h f))),
           style_height := Some (Px (rect_height (getBoundingClientRect h f))),
           transform := (pixelRatio h, pixelRatio h), lineCap := Round, lineJoin := RoundJoin,
           strokeStyle := ''#000000'', fillStyle := ''#000000'', ctx_lineWidth := 1,
           path := [], path_closed := False, bitmap := []\<rparr>)\<rparr>)"
  using assms
  by (simp add: resizeCanvas_def Let_def set_width_def set_height_def reset_context_def scale_ctx_def)


lemma hidpi_facts:
  "getBoundingClientRect hidpi_slide 0 = \<lparr>rect_left = 80, rect_top = 30, rect_width = 101, rect_height = 51\<rparr>"
  "pixelRatio hidpi_slide = 3 / 2"
  by (simp_all add: hidpi_slide_def hidpi_rects_def pixelRatio_def slide_def)




text \<open>
  C8: \<open>resize()\<close> is idempotent. With the container and the canvas bound it returns, the
  transform it leaves is the scale by the device pixel ratio, and a second call on the
  result, with the same container size and ratio, returns the same renderer: buffer
  dimensions, display size, transform and all other context state are unchanged.
\<close>

theorem resize_idempotent:
  assumes "flowchart this = Some f" "canvas this = Some cv"
  shows "\<exists>this1 cv1. resizeCanvas h this = Inr this1 \<and> canvas this1 = Some cv1 \<and>
           transform cv1 = (pixelRatio h, pixelRatio h) \<and> bitmap cv1 = [] \<and>
           resizeCanvas h this1 = Inr this1"
proof -
  let ?cv1 = "cv\<lparr>canvas_width := reflect_unsigned_long 300 (rect_width (getBoundingClientRect h f) * pixelRatio h),
           canvas_height := reflect_unsigned_long 150 (rect_height (getBoundingClientRect h f) * pixelRatio h),
           style_width := Some (Px (rect_width (getBoundingClientRect h f))),
           style_height := Some (Px (rect_height (getBoundingClientRect h f))),
           transform := (pixelRatio h, pixelRatio h), lineCap := Round, lineJoin := RoundJoin,
           strokeStyle := ''#000000'', fillStyle := ''#000000'', ctx_lineWidth := 1,
           path := [], path_closed := False, bitmap := []\<rparr>"
  let ?this1 = "this\<lparr>canvas := Some ?cv1\<rparr>"
  have one: "resizeCanvas h this = Inr ?this1" by (rule resizeCanvas_bound [OF assms])
  have f1: "flowchart ?this1 = Some f" using assms by simp
  have c1: "canvas ?this1 = Some ?cv1" by simp
  have two: "resizeCanvas h ?this1 = Inr ?this1"
    by (simp add: resizeCanvas_bound [OF f1 c1])
  show ?thesis using one two by simp
qed

theorem resize_idempotent_witness:
  "flowchart slide_connector = Some 0 \<and> canvas slide_connector = Some fresh_canvas \<and>
   map_option transform (surface_of (resizeCanvas hidpi_slide slide_connector)) = Some (3 / 2, 3 / 2) \<and>
   map_sum id (resizeCanvas hidpi_slide) (resizeCanvas hidpi_slide slide_connector)
     = Inr (resizeCanvas hidpi_slide slide_connector)"
proof -
  have a: "flowchart slide_connector = Some 0" and b: "canvas slide_connector = Some fresh_canvas"
    by (simp_all add: slide_connector_def)
  from resize_idempotent [OF a b, of hidpi_slide]
  obtain this1 cv1 where c: "resizeCanvas hidpi_slide slide_connector = Inr this1" "canvas this1 = Some cv1"
     "transform cv1 = (pixelRatio hidpi_slide, pixelRatio hidpi_slide)"
     "resizeCanvas hidpi_slide this1 = Inr this1" by blast
  show ?thesis using a b c by (simp add: surface_of_def hidpi_facts)
qed

section \<open>Arrow drawing\<close>

lemma paintArrow_bitmap:
  "bitmap (paintArrow cv rc w a fx fy tx ty) =
     bitmap cv @
       [Stroked rc w (transform cv) [to_device cv (fx, fy), to_device cv (tx, ty)],
        Filled rc [to_device cv (tx, ty), to_device cv (head_left a fx fy tx ty),
                   to_device cv (head_right a fx fy tx ty)]]"
  by (simp add: paintArrow_def Let_def beginPath_def moveTo_def lineTo_def closePath_def
      stroke_def fill_def outline_def to_device_def)

lemma paintArrow_frame:
  "transform (paintArrow cv rc w a fx fy tx ty) = transform cv"
  "canvas_width (paintArrow cv rc w a fx fy tx ty) = canvas_width cv"
  "canvas_height (paintArrow cv rc w a fx fy tx ty) = canvas_height cv"
  by (simp_all add: paintArrow_def Let_def beginPath_def moveTo_def lineTo_def closePath_def
      stroke_def fill_def outline_def to_device_def)

text \<open>\<open>atan2 y x\<close> is the direction of the vector \<open>(x, y)\<close>.\<close>

lemma atan2_direction:
  assumes "x \<noteq> 0 \<or> y \<noteq> 0"
  shows "sqrt (x\<^sup>2 + y\<^sup>2) * cos (atan2 y x) = x \<and> sqrt (x\<^sup>2 + y\<^sup>2) * sin (atan2 y x) = y"
proof (cases "x = 0")
  case True
  then show ?thesis using assms by (auto simp: atan2_def)
next
  case False
  have s: "sqrt (x\<^sup>2 + y\<^sup>2) = \<bar>x\<bar> * sqrt (1 + (y / x)\<^sup>2)"
  proof -
    have "x\<^sup>2 + y\<^sup>2 = x\<^sup>2 * (1 + (y / x)\<^sup>2)"
      using False by (simp add: field_simps power2_eq_square)
    then show ?thesis by (simp add: real_sqrt_mult)
  qed
  have p: "sqrt (1 + (y / x)\<^sup>2) \<noteq> 0"
    by (metis add_nonneg_eq_0_iff real_sqrt_eq_zero_cancel_iff zero_le_power2 zero_neq_one zero_le_one)
  have c: "sqrt (x\<^sup>2 + y\<^sup>2) * cos (arctan (y / x)) = \<bar>x\<bar>"
    using p by (simp add: s cos_arctan)
  have d: "sqrt (x\<^sup>2 + y\<^sup>2) * sin (arctan (y / x)) = \<bar>x\<bar> * (y / x)"
    using p by (simp add: s sin_arctan)
  show ?thesis
  proof (cases "0 < x")
    case True
    then show ?thesis using c d by (simp add: atan2_def)
  next
    case neg: False
    then have "x < 0" using False by simp
    then show ?thesis using c d
      by (simp add: atan2_def cos_diff cos_add sin_diff sin_add algebra_simps)
  qed
qed

text \<open>
  C5: with a canvas bound and a color that resolves, \<open>drawArrow\<close> strokes the line from
  the source to the destination and then fills one triangle. Its first vertex is the
  destination; its two trailing vertices lie at distance \<open>arrowSize\<close> from the
  destination, in the directions 30 degrees (\<open>pi / 6\<close>) to either side of the reversed
  line direction \<open>atan2 dy dx + pi\<close>. No other shape is painted, so nothing is drawn at
  the source. The witness is the horizontal arrow from \<open>(0, 0)\<close> to \<open>(100, 0)\<close> with
  \<open>arrowSize = 8\<close>: trailing vertices \<open>(100 - 8 cos 30, 8 sin 30)\<close> and
  \<open>(100 - 8 cos 30, - 8 sin 30)\<close>.
\<close>

theorem arrow_head_geometry:
  assumes "canvas this = Some cv" "resolveColor h color = Inr rc"
  shows "\<exists>cv'. drawArrow h this fromX fromY toX toY (Some color) = Inr (this\<lparr>canvas := Some cv'\<rparr>) \<and>
     bitmap cv' = bitmap cv @
       [Stroked rc (lineWidth this) (transform cv)
          [to_device cv (fromX, fromY), to_device cv (toX, toY)],
        Filled rc
          [to_device cv (toX, toY),
           to_device cv (head_left (arrowSize this) fromX fromY toX toY),
           to_device cv (head_right (arrowSize this) fromX fromY toX toY)]] \<and>
     head_left (arrowSize this) fromX fromY toX toY =
       (toX + arrowSize this * cos (atan2 (toY - fromY) (toX - fromX) + pi - pi / 6),
        toY + arrowSize this * sin (atan2 (toY - fromY) (toX - fromX) + pi - pi / 6)) \<and>
     head_right (arrowSize this) fromX fromY toX toY =
       (toX + arrowSize this * cos (atan2 (toY - fromY) (toX - fromX) + pi + pi / 6),
        toY + arrowSize this * sin (atan2 (toY - fromY) (toX - fromX) + pi + pi / 6)) \<and>
     (fst (head_left (arrowSize this) fromX fromY toX toY) - toX)\<^sup>2
       + (snd (head_left (arrowSize this) fromX fromY toX toY) - toY)\<^sup>2 = (arrowSize this)\<^sup>2 \<and>
     (fst (head_right (arrowSize this) fromX fromY toX toY) - toX)\<^sup>2
       + (snd (head_right (arrowSize this) fromX fromY toX toY) - toY)\<^sup>2 = (arrowSize this)\<^sup>2"
proof -
  let ?t = "atan2 (toY - fromY) (toX - fromX)"
  let ?a = "arrowSize this"
  have run: "drawArrow h this fromX fromY toX toY (Some color) =
      Inr (this\<lparr>canvas := Some (paintArrow cv rc (lineWidth this) ?a fromX fromY toX toY)\<rparr>)"
    using assms by (simp add: drawArrow_def)
  have rev1: "cos (?t + pi - pi / 6) = - cos (?t - pi / 6)" "sin (?t + pi - pi / 6) = - sin (?t - pi / 6)"
    using cos_periodic_pi [of "?t - pi / 6"] sin_periodic_pi [of "?t - pi / 6"]
    by (simp_all add: algebra_simps)
  have rev2: "cos (?t + pi + pi / 6) = - cos (?t + pi / 6)" "sin (?t + pi + pi / 6) = - sin (?t + pi / 6)"
    using cos_periodic_pi [of "?t + pi / 6"] sin_periodic_pi [of "?t + pi / 6"]
    by (simp_all add: algebra_simps)
  have l: "head_left ?a fromX fromY toX toY =
       (toX + ?a * cos (?t + pi - pi / 6), toY + ?a * sin (?t + pi - pi / 6))"
    unfolding rev1 by (simp add: head_left_def Let_def)
  have r: "head_right ?a fromX fromY toX toY =
       (toX + ?a * cos (?t + pi + pi / 6), toY + ?a * sin (?t + pi + pi / 6))"
    unfolding rev2 by (simp add: head_right_def Let_def)
  have unit: "\<And>u. (?a * cos u)\<^sup>2 + (?a * sin u)\<^sup>2 = ?a\<^sup>2"
  proof -
    fix u :: real
    have "(?a * cos u)\<^sup>2 + (?a * sin u)\<^sup>2 = ?a\<^sup>2 * ((cos u)\<^sup>2 + (sin u)\<^sup>2)"
      unfolding power_mult_distrib distrib_left ..
    also have "\<dots> = ?a\<^sup>2" unfolding cos_squared_eq by simp
    finally show "(?a * cos u)\<^sup>2 + (?a * sin u)\<^sup>2 = ?a\<^sup>2" .
  qed
  have dl: "(fst (head_left ?a fromX fromY toX toY) - toX)\<^sup>2
       + (snd (head_left ?a fromX fromY toX toY) - toY)\<^sup>2 = ?a\<^sup>2"
    using unit [of "?t + pi - pi / 6"] by (simp add: l)
  have dr: "(fst (head_right ?a fromX fromY toX toY) - toX)\<^sup>2
       + (snd (head_right ?a fromX fromY toX toY) - toY)\<^sup>2 = ?a\<^sup>2"
    using unit [of "?t + pi + pi / 6"] by (simp add: r)
  show ?thesis
    apply (rule exI [of _ "paintArrow cv rc (lineWidth this) ?a fromX fromY toX toY"])
    using run l r dl dr by (simp add: paintArrow_bitmap)
qed

lemma horizontal_head:
  "head_left 8 0 0 100 0 = (100 - 8 * cos (pi / 6), 8 * sin (pi / 6))"
  "head_right 8 0 0 100 0 = (100 - 8 * cos (pi / 6), - (8 * sin (pi / 6)))"
  by (simp_all add: head_left_def head_right_def atan2_def)

theorem arrow_head_geometry_witness:
  "canvas slide_connector = Some fresh_canvas \<and>
   resolveColor slide ''#ed8936'' = Inr ''#ed8936'' \<and>
   map_option bitmap (surface_of (drawArrow slide slide_connector 0 0 100 0 (Some ''#ed8936''))) =
     Some [Stroked ''#ed8936'' 3 (1, 1) [(0, 0), (100, 0)],
           Filled ''#ed8936'' [(100, 0), (100 - 8 * cos (pi / 6), 8 * sin (pi / 6)),
                               (100 - 8 * cos (pi / 6), - (8 * sin (pi / 6)))]] \<and>
   head_left 8 0 0 100 0 = (100 - 4 * sqrt 3, 4) \<and>
   head_right 8 0 0 100 0 = (100 - 4 * sqrt 3, - 4)"
proof -
  have a: "canvas slide_connector = Some fresh_canvas" by (simp add: slide_connector_def)
  have b: "resolveColor slide ''#ed8936'' = Inr ''#ed8936''" by (simp add: resolveColor_def)
  have s: "arrowSize slide_connector = 8" "lineWidth slide_connector = 3"
    by (simp_all add: slide_connector_def)
  have f: "transform fresh_canvas = (1, 1)" "bitmap fresh_canvas = []"
    by (simp_all add: fresh_canvas_def)
  from arrow_head_geometry [OF a b, of 0 0 100 0]
  obtain cv' where c: "drawArrow slide slide_connector 0 0 100 0 (Some ''#ed8936'') =
        Inr (slide_connector\<lparr>canvas := Some cv'\<rparr>)"
     and d: "bitmap cv' = bitmap fresh_canvas @
       [Stroked ''#ed8936'' (lineWidth slide_connector) (transform fresh_canvas)
          [to_device fresh_canvas (0, 0), to_device fresh_canvas (100, 0)],
        Filled ''#ed8936''
          [to_device fresh_canvas (100, 0),
           to_device fresh_canvas (head_left (arrowSize slide_connector) 0 0 100 0),
           to_device fresh_canvas (head_right (arrowSize slide_connector) 0 0 100 0)]]"
    by blast
  show ?thesis
    using a b c d by (simp add: surface_of_def s f to_device_def horizontal_head cos_30 sin_30)
qed

section \<open>Full redraw\<close>

text \<open>
  A redraw appends to the bitmap one clearing of the rectangle \<open>(0, 0)\<close> to
  \<open>(canvas.width, canvas.height)\<close>, taken through the current transform, and then the
  paint operations of the connections of the active table, in the order of the table.
  No connection sees what another one painted.
\<close>

lemma anchors_frame:
  "getElementBottom h (this\<lparr>canvas := x\<rparr>) e = getElementBottom h this e"
  "getElementTop h (this\<lparr>canvas := x\<rparr>) e = getElementTop h this e"
  by (simp_all add: getElementBottom_def getElementTop_def split: option.splits)

lemma drawConnection_step:
  assumes "canvas this = Some cv" "flowchart this = Some f" "resolveColor h (conn_color c) = Inr rc"
  shows "\<exists>cv'. drawConnection h this (conn_from c) (conn_to c) (Some (conn_color c))
              = Inr (this\<lparr>canvas := Some cv'\<rparr>) \<and>
           bitmap cv' = bitmap cv @ connection_ops h this c \<and>
           transform cv' = transform cv \<and>
           canvas_width cv' = canvas_width cv \<and> canvas_height cv' = canvas_height cv"
proof (cases "resolvable h c")
  case False
  then have "getElementById h (conn_from c) = None \<or>
      (\<exists>a. getElementById h (conn_from c) = Some a \<and> getElementById h (conn_to c) = None)"
    by (auto simp: resolvable_def)
  then have a: "drawConnection h this (conn_from c) (conn_to c) (Some (conn_color c)) = Inr this"
    and b: "connection_ops h this c = []"
    using assms
    by (auto simp: drawConnection_def getElementBottom_def getElementTop_def Let_def
        connection_ops_def blank_def surface_of_def split: option.splits)
  show ?thesis
    apply (rule exI [of _ cv])
    using a b assms by simp
next
  case True
  then obtain a b where ab: "getElementById h (conn_from c) = Some a" "getElementById h (conn_to c) = Some b"
    by (auto simp: resolvable_def)
  obtain fx fy where fp: "getElementBottom h this (conn_from c) = Inr (Some (fx, fy))"
    using assms ab by (simp add: getElementBottom_def Let_def)
  obtain tx ty where tp: "getElementTop h this (conn_to c) = Inr (Some (tx, ty))"
    using assms ab by (simp add: getElementTop_def Let_def)
  have fp': "getElementBottom h (blank this) (conn_from c) = Inr (Some (fx, fy))"
    using fp by (simp add: anchors_frame blank_def)
  have tp': "getElementTop h (blank this) (conn_to c) = Inr (Some (tx, ty))"
    using tp by (simp add: anchors_frame blank_def)
  let ?cv' = "paintArrow cv rc (lineWidth this) (arrowSize this) fx fy tx ty"
  have run: "drawConnection h this (conn_from c) (conn_to c) (Some (conn_color c))
      = Inr (this\<lparr>canvas := Some ?cv'\<rparr>)"
    using assms by (simp add: drawConnection_def fp tp drawArrow_def)
  have ops: "connection_ops h this c =
      [Stroked rc (lineWidth this) (transform cv) [to_device cv (fx, fy), to_device cv (tx, ty)],
       Filled rc [to_device cv (tx, ty), to_device cv (head_left (arrowSize this) fx fy tx ty),
                  to_device cv (head_right (arrowSize this) fx fy tx ty)]]"
  proof -
    have cb: "canvas (blank this) = Some (cv\<lparr>bitmap := []\<rparr>)"
      "lineWidth (blank this) = lineWidth this" "arrowSize (blank this) = arrowSize this"
      using assms by (simp_all add: blank_def)
    show ?thesis
      using assms
      by (simp add: connection_ops_def drawConnection_def fp' tp' drawArrow_def surface_of_def
          cb paintArrow_bitmap to_device_def)
  qed
  show ?thesis
    apply (rule exI [of _ ?cv'])
    using run ops by (simp add: paintArrow_bitmap paintArrow_frame)
qed

lemma connection_ops_frame:
  assumes "transform cv' = transform cv" "canvas this = Some cv"
  shows "connection_ops h (this\<lparr>canvas := Some cv'\<rparr>) c = connection_ops h this c"
  using assms
  by (simp add: connection_ops_def blank_def surface_of_def drawConnection_def drawArrow_def
      getElementBottom_def getElementTop_def Let_def paintArrow_bitmap to_device_def
      split: option.splits sum.splits)

lemma forEach_draw_bitmap:
  assumes "canvas this = Some cv" "flowchart this = Some f"
    "\<forall>c \<in> set cs. \<exists>rc. resolveColor h (conn_color c) = Inr rc"
  shows "\<exists>cv'. forEach_draw h cs this = Inr (this\<lparr>canvas := Some cv'\<rparr>) \<and>
           bitmap cv' = bitmap cv @ concat (map (connection_ops h this) cs) \<and>
           transform cv' = transform cv \<and>
           canvas_width cv' = canvas_width cv \<and> canvas_height cv' = canvas_height cv"
  using assms
proof (induction cs arbitrary: this cv)
  case Nil
  show ?case
    apply (rule exI [of _ cv])
    using Nil by simp
next
  case (Cons c cs)
  from Cons.prems(3) obtain rc where rc: "resolveColor h (conn_color c) = Inr rc" by auto
  from drawConnection_step [OF Cons.prems(1) Cons.prems(2) rc]
  obtain cv1 where s: "drawConnection h this (conn_from c) (conn_to c) (Some (conn_color c))
              = Inr (this\<lparr>canvas := Some cv1\<rparr>)"
    and b1: "bitmap cv1 = bitmap cv @ connection_ops h this c"
    and t1: "transform cv1 = transform cv"
    and d1: "canvas_width cv1 = canvas_width cv" "canvas_height cv1 = canvas_height cv"
    by blast
  let ?drawn = "this\<lparr>canvas := Some cv1\<rparr>"
  have c1: "canvas ?drawn = Some cv1" by simp
  have f1: "flowchart ?drawn = Some f" using Cons.prems(2) by simp
  have r1: "\<forall>c \<in> set cs. \<exists>rc. resolveColor h (conn_color c) = Inr rc" using Cons.prems(3) by simp
  from Cons.IH [OF c1 f1 r1]
  obtain cv2 where s2: "forEach_draw h cs ?drawn = Inr (?drawn\<lparr>canvas := Some cv2\<rparr>)"
    and b2: "bitmap cv2 = bitmap cv1 @ concat (map (connection_ops h ?drawn) cs)"
    and t2: "transform cv2 = transform cv1"
    and d2: "canvas_width cv2 = canvas_width cv1" "canvas_height cv2 = canvas_height cv1"
    by blast
  have same: "connection_ops h ?drawn = connection_ops h this"
    using connection_ops_frame [OF t1 Cons.prems(1)] by auto
  show ?case
    apply (rule exI [of _ cv2])
    using s s2 b1 b2 t1 t2 d1 d2 same by simp
qed

lemma table_colors_resolve:
  "\<forall>c \<in> set (active_connections t). \<exists>rc. resolveColor h (conn_color c) = Inr rc"
  by (simp add: active_connections_def hachzarah_connections_def default_connections_def
      resolveColor_def match_here_def)

lemma drawConnections_bitmap:
  assumes "canvas this = Some cv" "flowchart this = Some f"
  shows "\<exists>cv'. drawConnections h this = Inr (this\<lparr>canvas := Some cv'\<rparr>) \<and>
           bitmap cv' = bitmap cv @
             Cleared (to_device cv (0, 0)) (to_device cv (real (canvas_width cv), real (canvas_height cv)))
               # concat (map (connection_ops h this) (active_connections (connectionType this))) \<and>
           transform cv' = transform cv \<and>
           canvas_width cv' = canvas_width cv \<and> canvas_height cv' = canvas_height cv"
proof -
  let ?wiped = "clearRect cv 0 0 (real (canvas_width cv)) (real (canvas_height cv))"
  let ?begun = "this\<lparr>canvas := Some ?wiped\<rparr>"
  have c0: "canvas ?begun = Some ?wiped" by simp
  have f0: "flowchart ?begun = Some f" using assms by simp
  have t0: "transform ?wiped = transform cv" by (simp add: clearRect_def)
  from forEach_draw_bitmap [OF c0 f0 table_colors_resolve, of h "connectionType this"]
  obtain cv' where s: "forEach_draw h (active_connections (connectionType this)) ?begun
        = Inr (?begun\<lparr>canvas := Some cv'\<rparr>)"
    and b: "bitmap cv' = bitmap ?wiped @ concat (map (connection_ops h ?begun) (active_connections (connectionType this)))"
    and t: "transform cv' = transform ?wiped"
    and d: "canvas_width cv' = canvas_width ?wiped" "canvas_height cv' = canvas_height ?wiped"
    by blast
  have same: "connection_ops h ?begun = connection_ops h this"
    using connection_ops_frame [OF t0 assms(1)] by auto
  show ?thesis
    apply (rule exI [of _ cv'])
    using s b t d same assms by (simp add: drawConnections_def clearRect_def)
qed

lemma unresolved_paints_nothing:
  "\<not> resolvable h c \<Longrightarrow> connection_ops h this c = []"
  by (auto simp: resolvable_def connection_ops_def blank_def surface_of_def drawConnection_def
      getElementBottom_def getElementTop_def Let_def split: option.splits sum.splits)

lemma concat_skip_empty:
  "(\<And>x. \<not> P x \<Longrightarrow> g x = []) \<Longrightarrow> concat (map g xs) = concat (map g (filter P xs))"
  by (induction xs) auto



lemma slide_connector_fields:
  "canvas slide_connector = Some fresh_canvas" "flowchart slide_connector = Some 0"
  "connectionType slide_connector = ''default''" "lineWidth slide_connector = 3"
  "arrowSize slide_connector = 8"
  by (simp_all add: slide_connector_def)

lemma fresh_canvas_fields:
  "transform fresh_canvas = (1, 1)" "bitmap fresh_canvas = []"
  "canvas_width fresh_canvas = 300" "canvas_height fresh_canvas = 150"
  by (simp_all add: fresh_canvas_def)




section \<open>Topology variants\<close>

lemma resolved_connection_ops:
  assumes "canvas this = Some cv" "flowchart this = Some f" "resolveColor h (conn_color c) = Inr rc"
    "resolvable h c"
  shows "\<exists>fx fy tx ty.
      getElementBottom h this (conn_from c) = Inr (Some (fx, fy)) \<and>
      getElementTop h this (conn_to c) = Inr (Some (tx, ty)) \<and>
      connection_ops h this c =
        [Stroked rc (lineWidth this) (transform cv) [to_device cv (fx, fy), to_device cv (tx, ty)],
         Filled rc [to_device cv (tx, ty), to_device cv (head_left (arrowSize this) fx fy tx ty),
                    to_device cv (head_right (arrowSize this) fx fy tx ty)]]"
proof -
  from assms(4) obtain a b where ab: "getElementById h (conn_from c) = Some a" "getElementById h (conn_to c) = Some b"
    by (auto simp: resolvable_def)
  obtain fx fy where fp: "getElementBottom h this (conn_from c) = Inr (Some (fx, fy))"
    using assms ab by (simp add: getElementBottom_def Let_def)
  obtain tx ty where tp: "getElementTop h this (conn_to c) = Inr (Some (tx, ty))"
    using assms ab by (simp add: getElementTop_def Let_def)
  have fp': "getElementBottom h (blank this) (conn_from c) = Inr (Some (fx, fy))"
    using fp by (simp add: anchors_frame blank_def)
  have tp': "getElementTop h (blank this) (conn_to c) = Inr (Some (tx, ty))"
    using tp by (simp add: anchors_frame blank_def)
  have cb: "canvas (blank this) = Some (cv\<lparr>bitmap := []\<rparr>)"
    "lineWidth (blank this) = lineWidth this" "arrowSize (blank this) = arrowSize this"
    using assms by (simp_all add: blank_def)
  have ops: "connection_ops h this c =
      [Stroked rc (lineWidth this) (transform cv) [to_device cv (fx, fy), to_device cv (tx, ty)],
       Filled rc [to_device cv (tx, ty), to_device cv (head_left (arrowSize this) fx fy tx ty),
                  to_device cv (head_right (arrowSize this) fx fy tx ty)]]"
    using assms
    by (simp add: connection_ops_def drawConnection_def fp' tp' drawArrow_def surface_of_def
        cb paintArrow_bitmap to_device_def)
  show ?thesis using fp tp ops by blast
qed

lemma strokes_append: "strokes (xs @ ys) = strokes xs + strokes ys"
  by (simp add: strokes_def)

lemma strokes_concat:
  "(\<And>x. x \<in> set xs \<Longrightarrow> strokes (g x) = 1) \<Longrightarrow> strokes (concat (map g xs)) = length xs"
  by (induction xs) (simp_all add: strokes_append, simp add: strokes_def)

lemma one_stroke_per_connection:
  assumes "canvas this = Some cv" "flowchart this = Some f"
    "c \<in> set (active_connections t)" "resolvable h c"
  shows "strokes (connection_ops h this c) = 1"
proof -
  from table_colors_resolve assms(3) obtain rc where rc: "resolveColor h (conn_color c) = Inr rc"
    by blast
  from resolved_connection_ops [OF assms(1) assms(2) rc assms(4)]
  show ?thesis by (auto simp: strokes_def)
qed

lemma tables_disjoint: "set hachzarah_connections \<inter> set default_connections = {}"
  by (simp add: hachzarah_connections_def default_connections_def)

text \<open>
  C6, as amended: the selector \<open>hachzarah\<close> draws exactly the 12 connections of its table
  and none of the default table; every other selector value, recognised or not, draws
  exactly the 6 connections of the default table. When all endpoints resolve that is 12
  or 6 arrows.
\<close>

theorem variant_selects_table:
  assumes "canvas this = Some cv" "flowchart this = Some f"
  shows "\<exists>cv'. drawConnections h this = Inr (this\<lparr>canvas := Some cv'\<rparr>) \<and>
      bitmap cv' = bitmap cv @
        Cleared (to_device cv (0, 0)) (to_device cv (real (canvas_width cv), real (canvas_height cv)))
          # concat (map (connection_ops h this)
                      (if connectionType this = ''hachzarah'' then hachzarah_connections
                       else default_connections)) \<and>
      length hachzarah_connections = 12 \<and>
      length default_connections = 6 \<and>
      set hachzarah_connections \<inter> set default_connections = {} \<and>
      ((\<forall>c \<in> set (active_connections (connectionType this)). resolvable h c) \<longrightarrow>
         strokes (bitmap cv') =
           strokes (bitmap cv) + (if connectionType this = ''hachzarah'' then 12 else 6))"
proof -
  from drawConnections_bitmap [OF assms, of h]
  obtain cv' where s: "drawConnections h this = Inr (this\<lparr>canvas := Some cv'\<rparr>)"
    and b: "bitmap cv' = bitmap cv @
        Cleared (to_device cv (0, 0)) (to_device cv (real (canvas_width cv), real (canvas_height cv)))
          # concat (map (connection_ops h this) (active_connections (connectionType this)))"
    by blast
  have l: "length hachzarah_connections = 12" "length default_connections = 6"
    by (simp_all add: hachzarah_connections_def default_connections_def)
  have n: "length (active_connections (connectionType this))
      = (if connectionType this = ''hachzarah'' then 12 else 6)"
    by (simp add: active_connections_def l)
  have cnt: "(\<forall>c \<in> set (active_connections (connectionType this)). resolvable h c) \<longrightarrow>
         strokes (bitmap cv') =
           strokes (bitmap cv) + (if connectionType this = ''hachzarah'' then 12 else 6)"
  proof
    assume all: "\<forall>c \<in> set (active_connections (connectionType this)). resolvable h c"
    have "strokes (concat (map (connection_ops h this) (active_connections (connectionType this))))
        = length (active_connections (connectionType this))"
      by (rule strokes_concat) (use all one_stroke_per_connection [OF assms] in blast)
    then have "strokes (bitmap cv') = strokes (bitmap cv) + length (active_connections (connectionType this))"
      unfolding b strokes_append by (simp add: strokes_def)
    then show "strokes (bitmap cv') =
           strokes (bitmap cv) + (if connectionType this = ''hachzarah'' then 12 else 6)"
      unfolding n .
  qed
  have t: "active_connections (connectionType this) =
      (if connectionType this = ''hachzarah'' then hachzarah_connections else default_connections)"
    by (simp add: active_connections_def)
  show ?thesis
    apply (rule exI [of _ cv'])
    using s b [unfolded t] l tables_disjoint cnt by simp
qed

lemma full_slide_resolves_default:
  "\<forall>c \<in> set default_connections. resolvable full_slide c"
  by (simp add: default_connections_def resolvable_def full_slide_def full_ids_def slide_ids_def)

theorem variant_selects_table_witness:
  "canvas (slide_connector\<lparr>connectionType := ''vertical''\<rparr>) = Some fresh_canvas \<and>
   flowchart (slide_connector\<lparr>connectionType := ''vertical''\<rparr>) = Some 0 \<and>
   filter (resolvable full_slide) (active_connections ''vertical'') = default_connections \<and>
   map_option bitmap (surface_of (drawConnections full_slide (slide_connector\<lparr>connectionType := ''vertical''\<rparr>))) =
     Some (Cleared (0, 0) (300, 150)
             # concat (map (connection_ops full_slide (slide_connector\<lparr>connectionType := ''vertical''\<rparr>))
                        default_connections)) \<and>
   map_option strokes (map_option bitmap
      (surface_of (drawConnections full_slide (slide_connector\<lparr>connectionType := ''vertical''\<rparr>)))) = Some 6"
proof -
  let ?c = "slide_connector\<lparr>connectionType := ''vertical''\<rparr>"
  have a: "canvas ?c = Some fresh_canvas" and b: "flowchart ?c = Some 0"
    by (simp_all add: slide_connector_fields)
  have t: "connectionType ?c = ''vertical''" by simp
  have act: "active_connections ''vertical'' = default_connections"
    by (simp add: active_connections_def)
  have r: "\<forall>c \<in> set (active_connections ''vertical''). resolvable full_slide c"
    unfolding act by (rule full_slide_resolves_default)
  from variant_selects_table [OF a b, of full_slide]
  obtain cv' where s: "drawConnections full_slide ?c = Inr (?c\<lparr>canvas := Some cv'\<rparr>)"
    and d: "bitmap cv' = bitmap fresh_canvas @
        Cleared (to_device fresh_canvas (0, 0))
          (to_device fresh_canvas (real (canvas_width fresh_canvas), real (canvas_height fresh_canvas)))
          # concat (map (connection_ops full_slide ?c)
                      (if connectionType ?c = ''hachzarah'' then hachzarah_connections
                       else default_connections))"
    and n: "(\<forall>c \<in> set (active_connections (connectionType ?c)). resolvable full_slide c) \<longrightarrow>
         strokes (bitmap cv') =
           strokes (bitmap fresh_canvas) + (if connectionType ?c = ''hachzarah'' then 12 else 6)"
    by blast
  have six: "strokes (bitmap cv') = 6"
    using n r by (simp add: fresh_canvas_fields strokes_def)
  have bm: "bitmap cv' = Cleared (0, 0) (300, 150)
             # concat (map (connection_ops full_slide ?c) default_connections)"
    using d by (simp add: fresh_canvas_fields to_device_def)
  have all: "filter (resolvable full_slide) (active_connections ''vertical'') = default_connections"
    using r by (simp add: act)
  show ?thesis
    using a b all s six bm by (simp add: surface_of_def)
qed

text \<open>
  C6 as stated fails: the default table has 6 connections, not 3. On the slide with all
  its elements present the selector \<open>default\<close> draws 6 arrows.
\<close>

theorem default_variant_draws_six:
  "map_option strokes (map_option bitmap (surface_of (drawConnections full_slide slide_connector))) = Some 6 \<and>
   length (active_connections ''default'') = 6 \<and>
   length (active_connections ''default'') \<noteq> 3"
proof -
  have a: "canvas slide_connector = Some fresh_canvas" and b: "flowchart slide_connector = Some 0"
    by (simp_all add: slide_connector_fields)
  have act: "active_connections (connectionType slide_connector) = default_connections"
    "active_connections ''default'' = default_connections"
    by (simp_all add: active_connections_def slide_connector_fields)
  from drawConnections_bitmap [OF a b, of full_slide]
  obtain cv' where s: "drawConnections full_slide slide_connector = Inr (slide_connector\<lparr>canvas := Some cv'\<rparr>)"
    and d: "bitmap cv' = bitmap fresh_canvas @
        Cleared (to_device fresh_canvas (0, 0))
          (to_device fresh_canvas (real (canvas_width fresh_canvas), real (canvas_height fresh_canvas)))
          # concat (map (connection_ops full_slide slide_connector) default_connections)"
    unfolding act by blast
  have "strokes (concat (map (connection_ops full_slide slide_connector) default_connections))
      = length default_connections"
    by (rule strokes_concat)
       (use full_slide_resolves_default one_stroke_per_connection [OF a b, of _ "''default''"] act in auto)
  then have six: "strokes (bitmap cv') = 6"
    unfolding d strokes_append
    by (simp add: fresh_canvas_fields strokes_def default_connections_def)
  show ?thesis using s six by (simp add: surface_of_def act default_connections_def)
qed

section \<open>Clearing before a redraw\<close>

text \<open>
  The redraw clears \<open>(0, 0)\<close> to \<open>(canvas.width, canvas.height)\<close> in the scaled coordinates
  that \<open>resizeCanvas\<close> set up. At a device pixel ratio of at least 1 that covers the
  whole buffer.
\<close>

lemma clear_covers_buffer:
  assumes "1 \<le> r" "transform cv = (r, r)" "in_buffer cv p"
  shows "in_box (to_device cv (0, 0)) (to_device cv (real (canvas_width cv), real (canvas_height cv))) p"
proof -
  have w: "real (canvas_width cv) \<le> real (canvas_width cv) * r"
    using assms(1) by (simp add: mult_le_cancel_left1)
  have h: "real (canvas_height cv) \<le> real (canvas_height cv) * r"
    using assms(1) by (simp add: mult_le_cancel_left1)
  have nw: "0 \<le> real (canvas_width cv) * r" "0 \<le> real (canvas_height cv) * r"
    using assms(1) by simp_all
  show ?thesis
    using assms(3) w h nw
    by (simp add: in_buffer_def in_box_def to_device_def assms(2) min_def max_def)
qed

lemma half_slide_facts:
  "getBoundingClientRect half_slide 0 = \<lparr>rect_left = 80, rect_top = 30, rect_width = 200, rect_height = 100\<rparr>"
  "pixelRatio half_slide = 1 / 2"
  "getElementById half_slide = slide_ids"
  "getElementById emptied_slide = bare_ids"
  by (simp_all add: half_slide_def emptied_slide_def slide_def slide_rects_def pixelRatio_def)

lemma half_first_connection_ops:
  assumes "canvas this = Some cv" "flowchart this = Some 0" "transform cv = (1 / 2, 1 / 2)"
    "lineWidth this = 3" "arrowSize this = 8"
  shows "connection_ops half_slide this first_connection =
     [Stroked ''#48bb78'' 3 (1 / 2, 1 / 2) [(20, 20), (80, 30)],
      Filled ''#48bb78'' [(80, 30), to_device cv (head_left 8 40 40 160 60),
                          to_device cv (head_right 8 40 40 160 60)]]"
proof -
  have rc: "resolveColor half_slide (conn_color first_connection) = Inr ''#48bb78''"
    by (simp add: first_connection_def resolveColor_def match_here_def half_slide_def slide_def
        slide_style_def trim_def isWhiteSpace_def)
  have rs: "resolvable half_slide first_connection"
    by (simp add: resolvable_def half_slide_facts slide_ids_def first_connection_def)
  have fp: "getElementBottom half_slide this (conn_from first_connection) = Inr (Some (40, 40))"
    using assms(2)
    by (simp add: getElementBottom_def half_slide_def slide_def slide_ids_def slide_rects_def
        first_connection_def rect_bottom_def)
  have tp: "getElementTop half_slide this (conn_to first_connection) = Inr (Some (160, 60))"
    using assms(2)
    by (simp add: getElementTop_def half_slide_def slide_def slide_ids_def slide_rects_def
        first_connection_def)
  from resolved_connection_ops [OF assms(1) assms(2) rc rs]
  show ?thesis using fp tp by (auto simp: assms to_device_def)
qed

text \<open>
  C7: at device pixel ratio 0.5 the clearing does not reach the whole buffer. The
  container of 200 by 100 CSS pixels gets a buffer of 100 by 50; the first draw strokes
  the arrow from \<open>question1\<close> to \<open>q1-yes\<close>, which ends at device point \<open>(80, 30)\<close>. After
  the elements are gone a redraw has no connection to draw and clears only
  \<open>(0, 0)\<close> to \<open>(50, 25)\<close>: the point \<open>(80, 30)\<close> of the buffer still carries the old ink.
\<close>

theorem stale_ink_survives_redraw:
  "map_option canvas_width (surface_of redraw_after_removal) = Some 100 \<and>
   map_option canvas_height (surface_of redraw_after_removal) = Some 50 \<and>
   map_option transform (surface_of redraw_after_removal) = Some (1 / 2, 1 / 2) \<and>
   filter (resolvable emptied_slide) default_connections = [] \<and>
   map_option (\<lambda>cv. in_buffer cv (80, 30)) (surface_of redraw_after_removal) = Some True \<and>
   map_option (\<lambda>cv. inked (bitmap cv) (80, 30)) (surface_of redraw_after_removal) = Some True"
proof -
  have a: "canvas slide_connector = Some fresh_canvas" and b: "flowchart slide_connector = Some 0"
    by (simp_all add: slide_connector_fields)
  have fl: "\<lfloor>100 :: real\<rfloor> = 100" "\<lfloor>50 :: real\<rfloor> = 50" by simp_all
  have w: "reflect_unsigned_long 300 100 = 100" "reflect_unsigned_long 150 50 = 50"
    by (simp_all add: reflect_in_range)
  let ?cv1 = "fresh_canvas\<lparr>canvas_width := 100, canvas_height := 50,
           style_width := Some (Px 200), style_height := Some (Px 100),
           transform := (1 / 2, 1 / 2), lineCap := Round, lineJoin := RoundJoin,
           strokeStyle := ''#000000'', fillStyle := ''#000000'', ctx_lineWidth := 1,
           path := [], path_closed := False, bitmap := []\<rparr>"
  let ?r1 = "slide_connector\<lparr>canvas := Some ?cv1\<rparr>"
  have one: "resizeCanvas half_slide slide_connector = Inr ?r1"
    by (simp add: resizeCanvas_bound [OF b a] half_slide_facts w)
  have c1: "canvas ?r1 = Some ?cv1" and f1: "flowchart ?r1 = Some 0"
    by (simp_all add: slide_connector_fields)
  from drawConnections_bitmap [OF c1 f1, of half_slide]
  obtain cv2 where two: "drawConnections half_slide ?r1 = Inr (?r1\<lparr>canvas := Some cv2\<rparr>)"
    and b2: "bitmap cv2 = bitmap ?cv1 @
        Cleared (to_device ?cv1 (0, 0)) (to_device ?cv1 (real (canvas_width ?cv1), real (canvas_height ?cv1)))
          # concat (map (connection_ops half_slide ?r1) (active_connections (connectionType ?r1)))"
    and t2: "transform cv2 = transform ?cv1"
    and d2: "canvas_width cv2 = canvas_width ?cv1" "canvas_height cv2 = canvas_height ?cv1"
    by blast
  let ?r2 = "?r1\<lparr>canvas := Some cv2\<rparr>"
  have c2: "canvas ?r2 = Some cv2" and f2: "flowchart ?r2 = Some 0"
    by (simp_all add: slide_connector_fields)
  from drawConnections_bitmap [OF c2 f2, of emptied_slide]
  obtain cv3 where three: "drawConnections emptied_slide ?r2 = Inr (?r2\<lparr>canvas := Some cv3\<rparr>)"
    and b3: "bitmap cv3 = bitmap cv2 @
        Cleared (to_device cv2 (0, 0)) (to_device cv2 (real (canvas_width cv2), real (canvas_height cv2)))
          # concat (map (connection_ops emptied_slide ?r2) (active_connections (connectionType ?r2)))"
    and t3: "transform cv3 = transform cv2"
    and d3: "canvas_width cv3 = canvas_width cv2" "canvas_height cv3 = canvas_height cv2"
    by blast
  have act: "active_connections (connectionType ?r1) = default_connections"
    "active_connections (connectionType ?r2) = default_connections"
    by (simp_all add: active_connections_def slide_connector_fields)
  have none: "filter (resolvable emptied_slide) default_connections = []"
    by (simp add: default_connections_def resolvable_def half_slide_facts bare_ids_def)
  have gone: "concat (map (connection_ops emptied_slide ?r2) default_connections) = []"
    using concat_skip_empty [of "resolvable emptied_slide" "connection_ops emptied_slide ?r2" default_connections]
      unresolved_paints_nothing [of emptied_slide _ ?r2]
    by (simp add: none)
  have only: "filter (resolvable half_slide) default_connections = [first_connection]"
    by (simp add: default_connections_def resolvable_def half_slide_facts slide_ids_def first_connection_def)
  have drawn: "concat (map (connection_ops half_slide ?r1) default_connections)
      = connection_ops half_slide ?r1 first_connection"
    using concat_skip_empty [of "resolvable half_slide" "connection_ops half_slide ?r1" default_connections]
      unresolved_paints_nothing [of half_slide _ ?r1]
    by (simp add: only)
  have ops: "connection_ops half_slide ?r1 first_connection =
     [Stroked ''#48bb78'' 3 (1 / 2, 1 / 2) [(20, 20), (80, 30)],
      Filled ''#48bb78'' [(80, 30), to_device ?cv1 (head_left 8 40 40 160 60),
                          to_device ?cv1 (head_right 8 40 40 160 60)]]"
    by (rule half_first_connection_ops) (simp_all add: slide_connector_fields)
  have two': "drawConnections half_slide ?r1 = Inr (slide_connector\<lparr>canvas := Some cv2\<rparr>)"
    using two by simp
  have three': "drawConnections emptied_slide (slide_connector\<lparr>canvas := Some cv2\<rparr>)
      = Inr (slide_connector\<lparr>canvas := Some cv3\<rparr>)"
    using three by simp
  have final: "redraw_after_removal = Inr (slide_connector\<lparr>canvas := Some cv3\<rparr>)"
    unfolding redraw_after_removal_def one sum.case two' three' ..
  have bm: "bitmap cv3 =
      [Cleared (0, 0) (50, 25),
       Stroked ''#48bb78'' 3 (1 / 2, 1 / 2) [(20, 20), (80, 30)],
       Filled ''#48bb78'' [(80, 30), to_device ?cv1 (head_left 8 40 40 160 60),
                          to_device ?cv1 (head_right 8 40 40 160 60)],
       Cleared (0, 0) (50, 25)]"
    unfolding b3 b2 act gone drawn ops
    by (simp add: d2 t2 to_device_def)
  have near: "near_segment (3 / 2) (40, 40) (160, 60) (160, 60)"
    by (simp add: near_segment_def Let_def)
  have ink: "inked (bitmap cv3) (80, 30)"
    unfolding bm by (simp add: inked_def in_box_def to_user_def near)
  have buf: "in_buffer cv3 (80, 30)"
    by (simp add: in_buffer_def in_box_def d3 d2)
  show ?thesis
    using ink buf none by (simp add: final surface_of_def d3 d2 t3 t2)
qed

section \<open>Construction with a missing node\<close>

text \<open>
  With the canvas missing the constructor returns the inert object and registers no
  listener, so resize events do nothing; the methods of the inert object throw when
  called. With the canvas present and the container missing the constructor throws.
\<close>

lemma inert_methods_throw:
  "resizeCanvas h inert = Inl TypeError" "drawConnections h inert = Inl TypeError"
  by (simp_all add: resizeCanvas_def drawConnections_def inert_def)

lemma constructor_missing_canvas:
  "getElementById h canvasId = None \<Longrightarrow>
     constructor h surface pg canvasId flowchartId ctype = Inr (pg\<lparr>connector := inert\<rparr>)"
  by (simp add: constructor_def)

lemma constructor_missing_container:
  "getElementById h canvasId = Some n \<Longrightarrow> getElementById h flowchartId = None \<Longrightarrow>
     constructor h surface pg canvasId flowchartId ctype = Inl TypeError"
  by (simp add: constructor_def init_def resizeCanvas_def)

lemma no_listener_no_effect:
  "\<not> listening pg \<Longrightarrow> timers pg = [] \<Longrightarrow>
     advance env t (on_resize pg) = pg\<lparr>clock := max (clock pg) t\<rparr>"
  by (simp add: on_resize_def advance_def)

text \<open>
  C1: on a document where the canvas identifier resolves and the container identifier
  does not, construction does not complete: \<open>init\<close> calls \<open>resizeCanvas\<close>, which reads the
  bounding box of the missing container, and the TypeError leaves the constructor.
\<close>

theorem constructor_throws_without_container:
  "getElementById no_container_slide ''flowchart-canvas'' = Some 1 \<and>
   getElementById no_container_slide ''flowchart'' = None \<and>
   constructor no_container_slide (\<lambda>n. fresh_canvas) fresh_window
     ''flowchart-canvas'' ''flowchart'' None = Inl TypeError"
proof -
  have a: "getElementById no_container_slide ''flowchart-canvas'' = Some 1"
    by (simp add: no_container_slide_def canvas_only_ids_def)
  have b: "getElementById no_container_slide ''flowchart'' = None"
    by (simp add: no_container_slide_def canvas_only_ids_def)
  show ?thesis using a b constructor_missing_container [OF a b] by simp
qed

section \<open>Debounced resize\<close>

text \<open>
  With both nodes present the constructor returns a page whose renderer is bound and
  whose listener is registered; it sets no timeout.
\<close>

lemma constructor_bound:
  assumes "getElementById h canvasId = Some n" "getElementById h flowchartId = Some f"
  shows "\<exists>pg' cv'. constructor h surface pg canvasId flowchartId ctype = Inr pg' \<and>
           listening pg' \<and> timers pg' = timers pg \<and> resizeTimeout pg' = None \<and>
           canvas (connector pg') = Some cv' \<and> flowchart (connector pg') = Some f"
proof -
  let ?c = "\<lparr>canvas = Some (surface n), flowchart = Some f,
             connectionType = (case ctype of None \<Rightarrow> ''default'' | Some t \<Rightarrow> t),
             lineColor = trim (getPropertyValue h ''--primary-color''),
             lineWidth = 3, arrowSize = 8\<rparr>"
  have c: "canvas ?c = Some (surface n)" and f: "flowchart ?c = Some f" by simp_all
  from resizeCanvas_bound [OF f c, of h]
  obtain cv1 where one: "resizeCanvas h ?c = Inr (?c\<lparr>canvas := Some cv1\<rparr>)" by blast
  let ?c1 = "?c\<lparr>canvas := Some cv1\<rparr>"
  have c1: "canvas ?c1 = Some cv1" and f1: "flowchart ?c1 = Some f" by simp_all
  from drawConnections_bitmap [OF c1 f1, of h]
  obtain cv2 where two: "drawConnections h ?c1 = Inr (?c1\<lparr>canvas := Some cv2\<rparr>)" by blast
  have "constructor h surface pg canvasId flowchartId ctype =
      Inr (pg\<lparr>connector := ?c1\<lparr>canvas := Some cv2\<rparr>, listening := True, resizeTimeout := None\<rparr>)"
    unfolding constructor_def init_def using assms one two by simp
  then show ?thesis by simp
qed













end
